theory Spec2Isabelle
  imports Complex_Main "HOL-Library.List_Lexorder" "HOL-Library.Char_ord" "HOL-Library.Log_Nat"
begin

section \<open>Data model\<close>

text \<open>
  The cleaner reads a CSV file into a table and transforms it column by column. A table is
  a list of rows in file order; a cell that the CSV reader found missing (NaN) is \<open>None\<close>.
  The column \<open>sales_amount\<close> is numeric; a present amount is the rational number that
  the float64 cell denotes. The column \<open>transaction_date\<close> holds text before step 4
  and a timestamp after it, so the row type is polymorphic in the date cell.
\<close>

record timestamp =
  year :: int
  month :: nat
  day :: nat
  nanosecond_of_day :: nat

record 'd row =
  transaction_id :: "int option"
  transaction_date :: "'d option"
  product_id :: "string option"
  product_name :: "string option"
  sales_amount :: "rat option"
  state :: "string option"
  customer_id :: "int option"

text \<open>
  Steps 5 to 7 add four columns. \<open>transaction_month\<close> is a monthly period (year and
  month), \<open>transaction_quarter\<close> a number from 1 to 4; both are missing where the date is
  (NaT). \<open>product_category\<close> and \<open>tax_jurisdiction\<close> hold the text the two nested
  functions return.
\<close>

record cleaned_row = "timestamp row" +
  transaction_month :: "(int \<times> nat) option"
  transaction_quarter :: "nat option"
  product_category :: string
  tax_jurisdiction :: string

text \<open>
  What one run of \<open>clean_sales_data\<close> that returns produces: the shape (rows, columns)
  logged after loading, the count in \<open>Removed n duplicate records\<close>, the table returned
  (and written), and the shape printed as \<open>Final dataset shape\<close>. These are all the row
  counts a run reports. The sums of the printed summary are left out.
\<close>

record cleaning_run =
  loaded_shape :: "nat \<times> nat"
  duplicates_removed :: nat
  returned :: "cleaned_row list"
  final_shape :: "nat \<times> nat"

text \<open>
  A run that does not return raises, through one of the two outer handlers:
  \<open>FileNotFoundError\<close> when the input file is missing, and an unexpected error when
  \<open>pd.to_datetime\<close> itself raises (the inner handler only logs a warning and the
  column keeps its texts, so \<open>.dt\<close> in step 5 raises, and the outer handler logs the
  error and raises it again).
\<close>

datatype error = FileNotFoundError | UnexpectedError

text \<open>
  What the script takes from pandas and what differs between versions of it.

  \<^item> \<open>inplace_updates_frame\<close>: whether \<open>df[col].fillna(v, inplace=True)\<close> changes
    \<open>df\<close>. It does before pandas 3; with copy-on-write (pandas 3) the call fills a
    temporary copy of the column and \<open>df\<close> stays as it was.
  \<^item> \<open>to_datetime\<close>: the parser of step 4, called with \<open>errors='coerce'\<close> on the whole
    column. The column fixes how its texts are read (pandas 2 and later take one format
    from the first text); the result is then a function of each text, \<open>None\<close> for a
    text that does not parse (NaT). \<open>None\<close> for the column means that the call raised.
\<close>

record pandas =
  inplace_updates_frame :: bool
  to_datetime :: "string option list \<Rightarrow> (string \<Rightarrow> timestamp option) option"

section \<open>Steps 1 to 4 of \<open>clean_sales_data\<close>\<close>

text \<open>
  Step 1, \<open>df['sales_amount'].fillna(0, inplace=True)\<close> and
  \<open>df['state'].fillna('UNKNOWN', inplace=True)\<close>: each call fills one column of the
  frame when the in-place call on the selected column updates the frame, and does nothing
  to the frame otherwise.
\<close>

definition fillna_row :: "('d, 'z) row_scheme \<Rightarrow> ('d, 'z) row_scheme" where
  "fillna_row r =
     r\<lparr>sales_amount := (case sales_amount r of None \<Rightarrow> Some 0 | Some a \<Rightarrow> Some a),
       state := (case state r of None \<Rightarrow> Some ''UNKNOWN'' | Some s \<Rightarrow> Some s)\<rparr>"

definition fillna :: "bool \<Rightarrow> ('d, 'z) row_scheme list \<Rightarrow> ('d, 'z) row_scheme list" where
  "fillna updates df = (if updates then map fillna_row df else df)"

text \<open>
  Step 2, \<open>df.drop_duplicates(inplace=True)\<close> with the default \<open>keep='first'\<close>: the
  rows are visited in order and a row equal in every column to one already seen is
  dropped. Two missing cells count as equal, as in pandas.
\<close>

fun drop_duplicates_seen :: "'a list \<Rightarrow> 'a list \<Rightarrow> 'a list" where
  "drop_duplicates_seen seen [] = []"
| "drop_duplicates_seen seen (x # xs) =
     (if x \<in> set seen then drop_duplicates_seen seen xs
      else x # drop_duplicates_seen (x # seen) xs)"

definition drop_duplicates :: "'a list \<Rightarrow> 'a list" where
  "drop_duplicates df = drop_duplicates_seen [] df"

text \<open>
  Step 3, \<open>df = df[df['sales_amount'] >= 0]\<close>: a comparison with a missing amount is
  false, so such a row is not selected.
\<close>

definition non_negative :: "('d, 'z) row_scheme \<Rightarrow> bool" where
  "non_negative r = (case sales_amount r of None \<Rightarrow> False | Some a \<Rightarrow> 0 \<le> a)"

definition filter_non_negative :: "('d, 'z) row_scheme list \<Rightarrow> ('d, 'z) row_scheme list" where
  "filter_non_negative df = filter non_negative df"

text \<open>
  Step 4, \<open>pd.to_datetime(df['transaction_date'], errors='coerce')\<close> followed by
  \<open>df.dropna(subset=['transaction_date'])\<close>. \<open>parse_dates\<close> writes into the column
  what the parser, with the reading fixed for this column, gives for each text; a missing
  text stays missing.
\<close>

definition parse_row :: "(string \<Rightarrow> timestamp option) \<Rightarrow> string row \<Rightarrow> timestamp row" where
  "parse_row parse r =
     \<lparr>transaction_id = transaction_id r,
      transaction_date = (case transaction_date r of None \<Rightarrow> None | Some s \<Rightarrow> parse s),
      product_id = product_id r,
      product_name = product_name r,
      sales_amount = sales_amount r,
      state = state r,
      customer_id = customer_id r\<rparr>"

definition parse_dates :: "(string \<Rightarrow> timestamp option) \<Rightarrow> string row list \<Rightarrow> timestamp row list" where
  "parse_dates parse df = map (parse_row parse) df"

definition dropna_date :: "('d, 'z) row_scheme list \<Rightarrow> ('d, 'z) row_scheme list" where
  "dropna_date df = filter (\<lambda>r. transaction_date r \<noteq> None) df"

section \<open>Steps 5 to 7: derived columns\<close>

definition upper_char :: "char \<Rightarrow> char" where
  "upper_char c =
     (let n = (of_char c :: nat) in if 97 \<le> n \<and> n \<le> 122 then char_of (n - 32) else c)"

definition upper :: "string \<Rightarrow> string" where
  "upper s = map upper_char s"

definition startswith :: "string \<Rightarrow> string \<Rightarrow> bool" where
  "startswith s p = (take (length p) s = p)"

definition categorize_product :: "string option \<Rightarrow> string" where
  "categorize_product pid =
     (case pid of
        None \<Rightarrow> ''UNCATEGORIZED''
      | Some s \<Rightarrow>
          (let product_str = upper s in
           if startswith product_str ''ELE'' then ''ELECTRONICS''
           else if startswith product_str ''CLO'' then ''CLOTHING''
           else if startswith product_str ''GRO'' then ''GROCERIES''
           else ''OTHER''))"

definition determine_tax_jurisdiction :: "string option \<Rightarrow> string \<Rightarrow> string" where
  "determine_tax_jurisdiction st category =
     (if st \<in> set [Some ''CA'', Some ''NY'', Some ''TX''] \<and> category \<noteq> ''GROCERIES''
        then ''STANDARD''
      else if category = ''GROCERIES'' then ''GROCERY_EXEMPT''
      else ''REDUCED_RATE'')"

definition to_period_M :: "timestamp \<Rightarrow> int \<times> nat" where
  "to_period_M t = (year t, month t)"

definition quarter :: "timestamp \<Rightarrow> nat" where
  "quarter t = (month t - 1) div 3 + 1"

definition add_features :: "timestamp row \<Rightarrow> cleaned_row" where
  "add_features r =
     (let category = categorize_product (product_id r) in
      \<lparr>transaction_id = transaction_id r,
       transaction_date = transaction_date r,
       product_id = product_id r,
       product_name = product_name r,
       sales_amount = sales_amount r,
       state = state r,
       customer_id = customer_id r,
       transaction_month = map_option to_period_M (transaction_date r),
       transaction_quarter = map_option quarter (transaction_date r),
       product_category = category,
       tax_jurisdiction = determine_tax_jurisdiction (state r) category\<rparr>)"

section \<open>The cleaner\<close>

text \<open>
  \<open>file\<close> is the table in the input file, \<open>None\<close> when the file does not exist.
\<close>

definition clean_sales_data :: "pandas \<Rightarrow> string row list option \<Rightarrow> error + cleaning_run" where
  "clean_sales_data pd file =
     (case file of
        None \<Rightarrow> Inl FileNotFoundError
      | Some df \<Rightarrow>
          (let df1 = fillna (inplace_updates_frame pd) df;
               initial_count = length df1;
               df2 = drop_duplicates df1;
               removed = initial_count - length df2;
               df3 = filter_non_negative df2
           in case to_datetime pd (map transaction_date df3) of
                None \<Rightarrow> Inl UnexpectedError
              | Some parse \<Rightarrow>
                  (let df4 = dropna_date (parse_dates parse df3);
                       df7 = map add_features df4
                   in Inr \<lparr>loaded_shape = (length df, 7),
                           duplicates_removed = removed,
                           returned = df7,
                           final_shape = (length df7, 11)\<rparr>)))"

section \<open>The analyzer's statistics by category\<close>


text \<open>
  \<open>df.groupby('product_category')['sales_amount'].agg(['sum', 'count', 'mean'])\<close>, the
  columns renamed and the groups sorted by \<open>total_sales\<close>, largest first. A group-by
  visits the category values in sorted order. pandas leaves the order of groups with
  equal totals open; the model keeps them in key order.
\<close>

record category_stat =
  category :: string
  total_sales :: rat
  transaction_count :: nat
  avg_value :: "rat option"






section \<open>float64 arithmetic for the examples\<close>

text \<open>
  A float64 is a rational with a significand of 53 bits. \<open>float64\<close> rounds a rational
  to the nearest one, ties to the even significand (exponent range not bounded); the sum
  and the difference of two float64 are the rounded exact results. For fewer than eight
  values numpy's sum adds from left to right; the group-by adds with Kahan's
  compensation.
\<close>

definition round_half_even :: "rat \<Rightarrow> int" where
  "round_half_even x =
     (let f = \<lfloor>x\<rfloor>; d = x - of_int f
      in if d < 1 / 2 then f else if 1 / 2 < d then f + 1 else if even f then f else f + 1)"

definition ilog2 :: "rat \<Rightarrow> int" where
  "ilog2 x = (let d = bitlen (fst (quotient_of x)) - bitlen (snd (quotient_of x))
              in if 2 powi d \<le> x then d else d - 1)"

definition float64 :: "rat \<Rightarrow> rat" where
  "float64 x =
     (if x = 0 then 0
      else let e = ilog2 \<bar>x\<bar> - 52
           in sgn x * of_int (round_half_even (\<bar>x\<bar> / 2 powi e)) * 2 powi e)"








section \<open>Sample rows\<close>

text \<open>
  A parser for the examples. It agrees with \<open>pd.to_datetime\<close> on the columns the
  examples use: a year-month-day text parses whether the month is written \<open>01\<close> or
  \<open>1\<close>, and a text that is not a date gives NaT. \<open>pandas_2\<close> updates the frame in
  place, \<open>pandas_3\<close> does not. The sample row is the fourth row of
  \<open>generate_sample_data\<close>.
\<close>

definition sample_to_datetime :: "string \<Rightarrow> timestamp option" where
  "sample_to_datetime s =
     (if s = ''2024-01-15'' \<or> s = ''2024-1-15''
        then Some \<lparr>year = 2024, month = 1, day = 15, nanosecond_of_day = 0\<rparr>
      else if s = ''2024-01-17''
        then Some \<lparr>year = 2024, month = 1, day = 17, nanosecond_of_day = 0\<rparr>
      else None)"

definition pandas_2 :: pandas where
  "pandas_2 = \<lparr>inplace_updates_frame = True, to_datetime = (\<lambda>column. Some sample_to_datetime)\<rparr>"

definition pandas_3 :: pandas where
  "pandas_3 = \<lparr>inplace_updates_frame = False, to_datetime = (\<lambda>column. Some sample_to_datetime)\<rparr>"

definition sample_row :: "string row" where
  "sample_row =
     \<lparr>transaction_id = Some 1004,
      transaction_date = Some ''2024-01-17'',
      product_id = Some ''GRO-3001'',
      product_name = Some ''Apples'',
      sales_amount = Some (float64 (599 / 100)),
      state = Some ''CA'',
      customer_id = Some 204\<rparr>"

section \<open>The specification's wording, for comparison\<close>

text \<open>
  The specification matches the product id against the prefixes "ELE", "CLO" and "GRO"
  without regard to case: each character of the id is the capital letter of the prefix or
  its small form, which in ASCII lies 32 code points above the capital.
\<close>

fun prefix_ignoring_case :: "string \<Rightarrow> string \<Rightarrow> bool" where
  "prefix_ignoring_case [] s = True"
| "prefix_ignoring_case (p # ps) [] = False"
| "prefix_ignoring_case (p # ps) (c # cs) =
     ((c = p \<or> c = char_of (of_char p + (32::nat))) \<and> prefix_ignoring_case ps cs)"

definition spec_category :: "string option \<Rightarrow> string" where
  "spec_category pid =
     (case pid of
        None \<Rightarrow> ''UNCATEGORIZED''
      | Some s \<Rightarrow>
          if prefix_ignoring_case ''ELE'' s then ''ELECTRONICS''
          else if prefix_ignoring_case ''CLO'' s then ''CLOTHING''
          else if prefix_ignoring_case ''GRO'' s then ''GROCERIES''
          else ''OTHER'')"

section \<open>Conditions and variants used in the statements\<close>

text \<open>
  The table that reaches step 4, and its date column, which is what \<open>pd.to_datetime\<close>
  is called with.
\<close>

definition before_dates :: "pandas \<Rightarrow> string row list \<Rightarrow> string row list" where
  "before_dates pd df =
     filter_non_negative (drop_duplicates (fillna (inplace_updates_frame pd) df))"

definition date_column :: "pandas \<Rightarrow> string row list \<Rightarrow> string option list" where
  "date_column pd df = map transaction_date (before_dates pd df)"

text \<open>
  A reading of the dates keeps the date texts of a table apart when no two different
  texts of its \<open>transaction_date\<close> column parse to the same timestamp.
\<close>

definition parses_apart :: "(string \<Rightarrow> timestamp option) \<Rightarrow> string row list \<Rightarrow> bool" where
  "parses_apart parse input =
     (\<forall>r \<in> set input. \<forall>r' \<in> set input. \<forall>s s'.
        transaction_date r = Some s \<longrightarrow> transaction_date r' = Some s' \<longrightarrow>
        parse s = parse s' \<longrightarrow> parse s = None \<or> s = s')"

text \<open>
  The date text of a row parses when it is present and the reading gives a timestamp
  for it.
\<close>

definition date_parses :: "(string \<Rightarrow> timestamp option) \<Rightarrow> string row \<Rightarrow> bool" where
  "date_parses parse r =
     (case transaction_date r of None \<Rightarrow> False | Some s \<Rightarrow> parse s \<noteq> None)"

text \<open>
  Two rows are null variants when the second is the first with a missing amount
  written as 0, or with a missing state written as UNKNOWN.
\<close>

definition null_variant :: "string row \<Rightarrow> string row \<Rightarrow> bool" where
  "null_variant r r' =
     ((sales_amount r = None \<and> r' = r\<lparr>sales_amount := Some 0\<rparr>)
      \<or> (state r = None \<and> r' = r\<lparr>state := Some ''UNKNOWN''\<rparr>))"

text \<open>
  The cleaner with its steps in another order: steps 2 and 3 exchanged (order 1, 3, 2, 4),
  and the dates parsed before deduplication (order 1, 4, 2, 3). Each step is the step of
  \<open>clean_sales_data\<close>; the parser is called with the date column of the table that
  reaches it.
\<close>

definition clean_sales_data_1_3_2_4 :: "pandas \<Rightarrow> string row list option \<Rightarrow> error + cleaning_run" where
  "clean_sales_data_1_3_2_4 pd file =
     (case file of
        None \<Rightarrow> Inl FileNotFoundError
      | Some df \<Rightarrow>
          (let df1 = fillna (inplace_updates_frame pd) df;
               df2 = filter_non_negative df1;
               initial_count = length df2;
               df3 = drop_duplicates df2;
               removed = initial_count - length df3
           in case to_datetime pd (map transaction_date df3) of
                None \<Rightarrow> Inl UnexpectedError
              | Some parse \<Rightarrow>
                  (let df4 = dropna_date (parse_dates parse df3);
                       df7 = map add_features df4
                   in Inr \<lparr>loaded_shape = (length df, 7),
                           duplicates_removed = removed,
                           returned = df7,
                           final_shape = (length df7, 11)\<rparr>)))"

definition clean_sales_data_1_4_2_3 :: "pandas \<Rightarrow> string row list option \<Rightarrow> error + cleaning_run" where
  "clean_sales_data_1_4_2_3 pd file =
     (case file of
        None \<Rightarrow> Inl FileNotFoundError
      | Some df \<Rightarrow>
          (let df1 = fillna (inplace_updates_frame pd) df
           in case to_datetime pd (map transaction_date df1) of
                None \<Rightarrow> Inl UnexpectedError
              | Some parse \<Rightarrow>
                  (let df2 = dropna_date (parse_dates parse df1);
                       initial_count = length df2;
                       df3 = drop_duplicates df2;
                       removed = initial_count - length df3;
                       df4 = filter_non_negative df3;
                       df7 = map add_features df4
                   in Inr \<lparr>loaded_shape = (length df, 7),
                           duplicates_removed = removed,
                           returned = df7,
                           final_shape = (length df7, 11)\<rparr>)))"


section \<open>Auxiliary facts\<close>

subsection \<open>Characters\<close>

lemma upper_char_eq_iff:
  assumes "of_char k < (97::nat)"
  shows "upper_char c = k \<longleftrightarrow>
    c = k \<or> (c = char_of (of_char k + (32::nat)) \<and> 65 \<le> (of_char k :: nat) \<and> (of_char k::nat) \<le> 90)"
proof -
  have c: "c = char_of (of_char c :: nat)" by simp
  show ?thesis
    using assms
    apply (auto simp: upper_char_def Let_def char_of_eq_iff take_bit_eq_mod)
    apply (subst c)
    apply (rule arg_cong[of _ _ char_of])
    apply arith
    done
qed

lemma startswith_upper:
  "list_all (\<lambda>p. 65 \<le> (of_char p :: nat) \<and> (of_char p :: nat) \<le> 90) p \<Longrightarrow>
     startswith (upper s) p = prefix_ignoring_case p s"
proof (induction p s rule: prefix_ignoring_case.induct)
  case (1 s)
  then show ?case by (simp add: startswith_def)
next
  case (2 p ps)
  then show ?case by (simp add: startswith_def upper_def)
next
  case (3 p ps c cs)
  then have "of_char p < (97::nat)" by simp
  from upper_char_eq_iff[OF this, of c] 3 show ?case
    by (auto simp: startswith_def upper_def)
qed

subsection \<open>Dropping duplicates\<close>

lemma set_drop_duplicates_seen:
  "set (drop_duplicates_seen seen xs) = set xs - set seen"
  by (induction xs arbitrary: seen) auto

lemma distinct_drop_duplicates_seen:
  "distinct (drop_duplicates_seen seen xs)"
  by (induction xs arbitrary: seen) (auto simp: set_drop_duplicates_seen)

lemma drop_duplicates_seen_snoc:
  "drop_duplicates_seen seen (xs @ [x]) =
     drop_duplicates_seen seen xs @ (if x \<in> set seen \<union> set xs then [] else [x])"
  by (induction xs arbitrary: seen) auto

lemma drop_duplicates_seen_cong:
  "set seen \<inter> set ys = set seen' \<inter> set ys \<Longrightarrow>
     drop_duplicates_seen seen ys = drop_duplicates_seen seen' ys"
proof (induction ys arbitrary: seen seen')
  case Nil
  then show ?case by simp
next
  case (Cons y ys)
  have m: "y \<in> set seen \<longleftrightarrow> y \<in> set seen'" using Cons.prems by auto
  have a: "set seen \<inter> set ys = set seen' \<inter> set ys" using Cons.prems by auto
  have b: "set (y # seen) \<inter> set ys = set (y # seen') \<inter> set ys" using Cons.prems by auto
  show ?case using m Cons.IH[OF a] Cons.IH[OF b] by simp
qed

lemma filter_drop_duplicates_seen:
  "filter P (drop_duplicates_seen seen xs) = drop_duplicates_seen seen (filter P xs)"
proof (induction xs arbitrary: seen)
  case Nil
  then show ?case by simp
next
  case (Cons x xs)
  show ?case
  proof (cases "P x")
    case True
    then show ?thesis using Cons.IH by simp
  next
    case False
    then have "x \<notin> set (filter P xs)" by simp
    then have "drop_duplicates_seen (x # seen) (filter P xs) = drop_duplicates_seen seen (filter P xs)"
      by (intro drop_duplicates_seen_cong) auto
    then show ?thesis using False Cons.IH by simp
  qed
qed

lemma set_drop_duplicates: "set (drop_duplicates df) = set df"
  by (simp add: drop_duplicates_def set_drop_duplicates_seen)

lemma distinct_drop_duplicates: "distinct (drop_duplicates df)"
  by (simp add: drop_duplicates_def distinct_drop_duplicates_seen)

lemma filter_drop_duplicates: "filter P (drop_duplicates df) = drop_duplicates (filter P df)"
  by (simp add: drop_duplicates_def filter_drop_duplicates_seen)

lemma nths_cong_below:
  "(\<And>i. i < length xs \<Longrightarrow> i \<in> A \<longleftrightarrow> i \<in> B) \<Longrightarrow> nths xs A = nths xs B"
  unfolding nths_def
  by (rule arg_cong[of _ _ "map fst"], rule filter_cong) (auto simp: set_zip)

lemma drop_duplicates_nths:
  "drop_duplicates xs = nths xs {i. \<forall>j<i. xs ! j \<noteq> xs ! i}"
proof (induction xs rule: rev_induct)
  case Nil
  then show ?case by (simp add: drop_duplicates_def)
next
  case (snoc x xs)
  let ?A = "{i. \<forall>j<i. (xs @ [x]) ! j \<noteq> (xs @ [x]) ! i}"
  have a: "nths xs ?A = nths xs {i. \<forall>j<i. xs ! j \<noteq> xs ! i}"
    by (rule nths_cong_below) (auto simp: nth_append)
  have b: "length xs \<in> ?A \<longleftrightarrow> x \<notin> set xs"
    by (auto simp: nth_append in_set_conv_nth)
  have "nths (xs @ [x]) ?A = nths xs ?A @ (if x \<in> set xs then [] else [x])"
    using b by (simp add: nths_append nths_singleton)
  then show ?case
    using snoc a by (simp add: drop_duplicates_def drop_duplicates_seen_snoc)
qed

lemma removed_count:
  "length xs - length (drop_duplicates xs) = card {i. i < length xs \<and> (\<exists>j<i. xs ! j = xs ! i)}"
proof -
  let ?K = "{i. i < length xs \<and> (\<forall>j<i. xs ! j \<noteq> xs ! i)}"
  let ?D = "{i. i < length xs \<and> (\<exists>j<i. xs ! j = xs ! i)}"
  have l: "length (drop_duplicates xs) = card ?K"
    by (simp add: drop_duplicates_nths length_nths)
  have "?K \<union> ?D = {..<length xs}" "?K \<inter> ?D = {}" by auto
  then have "card ?K + card ?D = length xs"
    by (metis (no_types, lifting) card_Un_disjoint card_lessThan finite_Un finite_lessThan)
  then show ?thesis using l by simp
qed

subsection \<open>Evaluating on given rows\<close>

lemma float64_5_99: "float64 (599 / 100) = 3372070220993659 / 562949953421312"
  by code_simp

lemmas cleaner_defs =
  clean_sales_data_def Let_def fillna_def fillna_row_def drop_duplicates_def
  filter_non_negative_def non_negative_def parse_dates_def parse_row_def dropna_date_def
  add_features_def categorize_product_def determine_tax_jurisdiction_def startswith_def
  upper_def upper_char_def char_of_eq_iff to_period_M_def quarter_def
  sample_to_datetime_def sample_row_def pandas_2_def pandas_3_def float64_5_99

subsection \<open>Rows of the returned table\<close>

lemma parse_row_fields:
  "transaction_id (parse_row p r) = transaction_id r"
  "product_id (parse_row p r) = product_id r"
  "product_name (parse_row p r) = product_name r"
  "sales_amount (parse_row p r) = sales_amount r"
  "state (parse_row p r) = state r"
  "customer_id (parse_row p r) = customer_id r"
  "transaction_date (parse_row p r) = (case transaction_date r of None \<Rightarrow> None | Some s \<Rightarrow> p s)"
  by (simp_all add: parse_row_def)

lemma parse_row_inj:
  assumes e: "parse_row p r = parse_row p r'"
    and n: "transaction_date (parse_row p r) \<noteq> None"
    and i: "\<And>s s'. transaction_date r = Some s \<Longrightarrow> transaction_date r' = Some s' \<Longrightarrow>
            p s = p s' \<Longrightarrow> s = s'"
  shows "r = r'"
proof -
  have f1: "transaction_id r = transaction_id r'"
    using arg_cong[OF e, of transaction_id] by (simp only: parse_row_fields)
  have f2: "product_id r = product_id r'"
    using arg_cong[OF e, of product_id] by (simp only: parse_row_fields)
  have f3: "product_name r = product_name r'"
    using arg_cong[OF e, of product_name] by (simp only: parse_row_fields)
  have f4: "sales_amount r = sales_amount r'"
    using arg_cong[OF e, of sales_amount] by (simp only: parse_row_fields)
  have f5: "state r = state r'"
    using arg_cong[OF e, of state] by (simp only: parse_row_fields)
  have f6: "customer_id r = customer_id r'"
    using arg_cong[OF e, of customer_id] by (simp only: parse_row_fields)
  have f7: "(case transaction_date r of None \<Rightarrow> None | Some s \<Rightarrow> p s)
          = (case transaction_date r' of None \<Rightarrow> None | Some s \<Rightarrow> p s)"
    using arg_cong[OF e, of transaction_date] by (simp only: parse_row_fields)
  have n': "(case transaction_date r of None \<Rightarrow> None | Some s \<Rightarrow> p s) \<noteq> None"
    using n unfolding parse_row_fields(7) .
  obtain s where s: "transaction_date r = Some s" "p s \<noteq> None"
    using n' by (cases "transaction_date r") auto
  obtain s' where s': "transaction_date r' = Some s'" "p s = p s'"
    using f7 s by (cases "transaction_date r'") auto
  have "s = s'" by (rule i[OF s(1) s'(1) s'(2)])
  then have f8: "transaction_date r = transaction_date r'" using s(1) s'(1) by simp
  show ?thesis
    by (rule row.equality) (simp_all add: f1 f2 f3 f4 f5 f6 f8)
qed

lemma length_fillna: "length (fillna u df) = length df"
  by (simp add: fillna_def)

lemma clean_sales_data_Inr:
  "clean_sales_data pd file = Inr run \<longleftrightarrow>
     (\<exists>df parse. file = Some df \<and> to_datetime pd (date_column pd df) = Some parse
        \<and> run = \<lparr>loaded_shape = (length df, 7),
                  duplicates_removed =
                    length df - length (drop_duplicates (fillna (inplace_updates_frame pd) df)),
                  returned = map add_features (dropna_date (parse_dates parse (before_dates pd df))),
                  final_shape =
                    (length (dropna_date (parse_dates parse (before_dates pd df))), 11)\<rparr>)"
  by (auto simp: clean_sales_data_def Let_def date_column_def before_dates_def length_fillna
      split: option.splits)

lemma clean_sales_data_run:
  assumes "clean_sales_data pd (Some input) = Inr run"
  obtains parse where "to_datetime pd (date_column pd input) = Some parse"
    and "returned run = map add_features (dropna_date (parse_dates parse (before_dates pd input)))"
    and "duplicates_removed run
           = length input - length (drop_duplicates (fillna (inplace_updates_frame pd) input))"
    and "loaded_shape run = (length input, 7)"
    and "final_shape run = (length (returned run), 11)"
proof -
  obtain df parse where a: "Some input = Some df" "to_datetime pd (date_column pd df) = Some parse"
    and r: "run = \<lparr>loaded_shape = (length df, 7),
                  duplicates_removed =
                    length df - length (drop_duplicates (fillna (inplace_updates_frame pd) df)),
                  returned = map add_features (dropna_date (parse_dates parse (before_dates pd df))),
                  final_shape =
                    (length (dropna_date (parse_dates parse (before_dates pd df))), 11)\<rparr>"
    using assms unfolding clean_sales_data_Inr by blast
  have d: "df = input" using a(1) by simp
  show ?thesis
    by (rule that[of parse]) (simp_all add: r d[symmetric] a(2))
qed

lemma before_dates_row:
  assumes "x \<in> set (before_dates pd input)"
  shows "non_negative x" and "x \<in> set (fillna (inplace_updates_frame pd) input)"
  using assms by (simp_all add: before_dates_def filter_non_negative_def set_drop_duplicates)

lemma fillna_row_origin:
  assumes "x \<in> set (fillna u input)"
  obtains r where "r \<in> set input" "x = fillna_row r \<or> x = r"
  using assms by (auto simp: fillna_def split: if_splits)

lemma returned_row_origin:
  assumes "returned run = map add_features (dropna_date (parse_dates parse (before_dates pd input)))"
    and "o' \<in> set (returned run)"
  obtains x where "x \<in> set (before_dates pd input)"
    "transaction_date (parse_row parse x) \<noteq> None"
    "o' = add_features (parse_row parse x)"
  using assms(2) unfolding assms(1)
  by (auto simp: dropna_date_def parse_dates_def)

lemma categorize_product_range:
  "categorize_product pid \<in> {''ELECTRONICS'', ''CLOTHING'', ''GROCERIES'', ''OTHER'', ''UNCATEGORIZED''}"
  by (simp add: categorize_product_def Let_def split: option.split)

lemma determine_tax_jurisdiction_range:
  "determine_tax_jurisdiction st c \<in> {''STANDARD'', ''GROCERY_EXEMPT'', ''REDUCED_RATE''}"
  by (simp add: determine_tax_jurisdiction_def)

lemma add_features_fields:
  "transaction_id (add_features r) = transaction_id r"
  "transaction_date (add_features r) = transaction_date r"
  "product_id (add_features r) = product_id r"
  "product_name (add_features r) = product_name r"
  "sales_amount (add_features r) = sales_amount r"
  "state (add_features r) = state r"
  "customer_id (add_features r) = customer_id r"
  "product_category (add_features r) = categorize_product (product_id r)"
  "tax_jurisdiction (add_features r) =
     determine_tax_jurisdiction (state r) (categorize_product (product_id r))"
  by (simp_all add: add_features_def Let_def)

lemma fillna_row_fields:
  "transaction_id (fillna_row r) = transaction_id r"
  "transaction_date (fillna_row r) = transaction_date r"
  "product_id (fillna_row r) = product_id r"
  "product_name (fillna_row r) = product_name r"
  "customer_id (fillna_row r) = customer_id r"
  "row.more (fillna_row r) = row.more r"
  "sales_amount (fillna_row r) = (case sales_amount r of None \<Rightarrow> Some 0 | Some a \<Rightarrow> Some a)"
  "state (fillna_row r) = (case state r of None \<Rightarrow> Some ''UNKNOWN'' | Some s \<Rightarrow> Some s)"
  by (simp_all add: fillna_row_def)

lemma add_features_inj:
  assumes e: "add_features r = add_features r'"
  shows "r = r'"
proof -
  have f1: "transaction_id r = transaction_id r'"
    using arg_cong[OF e, of transaction_id] by (simp only: add_features_fields)
  have f2: "product_id r = product_id r'"
    using arg_cong[OF e, of product_id] by (simp only: add_features_fields)
  have f3: "product_name r = product_name r'"
    using arg_cong[OF e, of product_name] by (simp only: add_features_fields)
  have f4: "sales_amount r = sales_amount r'"
    using arg_cong[OF e, of sales_amount] by (simp only: add_features_fields)
  have f5: "state r = state r'"
    using arg_cong[OF e, of state] by (simp only: add_features_fields)
  have f6: "customer_id r = customer_id r'"
    using arg_cong[OF e, of customer_id] by (simp only: add_features_fields)
  have f7: "transaction_date r = transaction_date r'"
    using arg_cong[OF e, of transaction_date] by (simp only: add_features_fields)
  show ?thesis
    by (rule row.equality) (simp_all add: f1 f2 f3 f4 f5 f6 f7)
qed

lemma parses_apartD:
  assumes "parses_apart p input" "r \<in> set input" "r' \<in> set input"
    "transaction_date r = Some s" "transaction_date r' = Some s'" "p s = p s'" "p s \<noteq> None"
  shows "s = s'"
  using assms(1)[unfolded parses_apart_def, rule_format, OF assms(2,3,4,5,6)] assms(7)
  by simp

lemma distinct_before_dates: "distinct (filter Q (before_dates pd df))"
  by (simp add: before_dates_def filter_non_negative_def distinct_drop_duplicates)

lemma before_dates_date:
  assumes "x \<in> set (before_dates pd input)"
  obtains r where "r \<in> set input" "transaction_date x = transaction_date r"
proof -
  have "x \<in> set (fillna (inplace_updates_frame pd) input)" using assms by (rule before_dates_row)
  then obtain r where r: "r \<in> set input" "x = fillna_row r \<or> x = r" by (rule fillna_row_origin)
  have "transaction_date x = transaction_date r" using r(2) by (auto simp: fillna_row_fields)
  then show ?thesis using r(1) that by blast
qed

lemma distinct_returned:
  assumes pa: "parses_apart parse input"
    and r: "returned run = map add_features (dropna_date (parse_dates parse (before_dates pd input)))"
  shows "distinct (returned run)"
proof -
  let ?Q = "\<lambda>r. transaction_date (parse_row parse r) \<noteq> None"
  let ?X = "filter ?Q (before_dates pd input)"
  let ?g = "\<lambda>r. add_features (parse_row parse r)"
  have r': "returned run = map ?g ?X"
    unfolding r by (simp add: dropna_date_def parse_dates_def filter_map comp_def)
  have d: "distinct ?X" by (rule distinct_before_dates)
  have i: "inj_on ?g (set ?X)"
  proof (rule inj_onI)
    fix x y
    assume x: "x \<in> set ?X" and y: "y \<in> set ?X" and e: "?g x = ?g y"
    have xb: "x \<in> set (before_dates pd input)" using x by simp
    have yb: "y \<in> set (before_dates pd input)" using y by simp
    obtain rx where rx: "rx \<in> set input" "transaction_date x = transaction_date rx"
      using xb by (rule before_dates_date)
    obtain ry where ry: "ry \<in> set input" "transaction_date y = transaction_date ry"
      using yb by (rule before_dates_date)
    have px: "transaction_date (parse_row parse x) \<noteq> None" using x by simp
    have pe: "parse_row parse x = parse_row parse y" using e by (rule add_features_inj)
    show "x = y"
    proof (rule parse_row_inj[OF pe px])
      fix s s'
      assume a: "transaction_date x = Some s" "transaction_date y = Some s'" "parse s = parse s'"
      have n: "parse s \<noteq> None" using px a(1) by (simp add: parse_row_fields)
      have tx: "transaction_date rx = Some s" using a(1) rx(2) by simp
      have ty: "transaction_date ry = Some s'" using a(2) ry(2) by simp
      show "s = s'" by (rule parses_apartD[OF pa rx(1) ry(1) tx ty a(3) n])
    qed
  qed
  show ?thesis unfolding r' using d i by (simp only: distinct_map simp_thms)
qed

lemma sample_run_2:
  "clean_sales_data pandas_2 (Some
      [sample_row, sample_row\<lparr>sales_amount := Some (- 5)\<rparr>,
       sample_row\<lparr>transaction_date := Some ''not a date''\<rparr>])
   = Inr \<lparr>loaded_shape = (3, 7), duplicates_removed = 0,
          returned = [add_features (parse_row sample_to_datetime sample_row)],
          final_shape = (1, 11)\<rparr>"
  by (simp add: cleaner_defs)

lemma sample_parses_apart:
  "parses_apart sample_to_datetime
      [sample_row, sample_row\<lparr>sales_amount := Some (- 5)\<rparr>,
       sample_row\<lparr>transaction_date := Some ''not a date''\<rparr>]"
  by (simp add: parses_apart_def sample_row_def sample_to_datetime_def)

lemma sample_to_datetime_2: "to_datetime pandas_2 column = Some sample_to_datetime"
  by (simp add: pandas_2_def)

lemma sample_run_single:
  "clean_sales_data pandas_3 (Some [sample_row])
     = Inr \<lparr>loaded_shape = (1, 7), duplicates_removed = 0,
            returned = [add_features (parse_row sample_to_datetime sample_row)],
            final_shape = (1, 11)\<rparr>"
  by (simp add: cleaner_defs)

subsection \<open>Steps applied to the returned table\<close>

lemma drop_duplicates_seen_distinct:
  "distinct xs \<Longrightarrow> set xs \<inter> set seen = {} \<Longrightarrow> drop_duplicates_seen seen xs = xs"
  by (induction xs arbitrary: seen) auto

lemma drop_duplicates_distinct: "distinct xs \<Longrightarrow> drop_duplicates xs = xs"
  by (simp add: drop_duplicates_def drop_duplicates_seen_distinct)

lemma fillna_row_present:
  "sales_amount r = Some a \<Longrightarrow> state r = Some s \<Longrightarrow> fillna_row r = r"
  by (simp add: fillna_row_def)

lemma returned_row_filled:
  assumes ret: "returned run = map add_features (dropna_date (parse_dates parse (before_dates pd input)))"
    and r: "r \<in> set (returned run)"
  shows "inplace_updates_frame pd \<Longrightarrow> fillna_row r = r" and "non_negative r"
proof -
  from ret r obtain x where x: "x \<in> set (before_dates pd input)"
    "r = add_features (parse_row parse x)"
    by (rule returned_row_origin)
  have nn: "non_negative x" using x(1) by (rule before_dates_row)
  have sa: "sales_amount r = sales_amount x" "state r = state x"
    unfolding x(2) add_features_fields parse_row_fields by simp_all
  show "non_negative r" using nn sa(1) by (simp add: non_negative_def)
  assume u: "inplace_updates_frame pd"
  have "x \<in> set (fillna (inplace_updates_frame pd) input)" using x(1) by (rule before_dates_row)
  then obtain r0 where r0: "x = fillna_row r0" using u by (auto simp: fillna_def)
  obtain a where a: "sales_amount r = Some a"
    unfolding sa r0 fillna_row_fields by (cases "sales_amount r0") auto
  obtain s where s: "state r = Some s"
    unfolding sa r0 fillna_row_fields by (cases "state r0") auto
  show "fillna_row r = r" using a s by (rule fillna_row_present)
qed

lemma fillna_returned:
  assumes "returned run = map add_features (dropna_date (parse_dates parse (before_dates pd input)))"
  shows "fillna (inplace_updates_frame pd) (returned run) = returned run"
proof (cases "inplace_updates_frame pd")
  case True
  have "map fillna_row (returned run) = returned run"
    by (rule map_idI) (rule returned_row_filled(1)[OF assms _ True])
  then show ?thesis using True by (simp add: fillna_def)
next
  case False
  then show ?thesis by (simp add: fillna_def)
qed

lemma filter_non_negative_returned:
  assumes "returned run = map add_features (dropna_date (parse_dates parse (before_dates pd input)))"
  shows "filter_non_negative (returned run) = returned run"
  unfolding filter_non_negative_def
  using returned_row_filled(2)[OF assms] by simp

subsection \<open>The date filter and row counts\<close>

lemma date_parses_parse_row:
  "(transaction_date (parse_row p r) \<noteq> None) = date_parses p r"
  by (simp add: parse_row_fields date_parses_def split: option.split)

lemma dropna_parse_dates:
  "dropna_date (parse_dates p df) = map (parse_row p) (filter (date_parses p) df)"
  by (simp only: dropna_date_def parse_dates_def filter_map comp_def date_parses_parse_row)

lemma returned_as_filter:
  assumes "returned run = map add_features (dropna_date (parse_dates parse (before_dates pd input)))"
  shows "returned run = map (\<lambda>r. add_features (parse_row parse r))
           (filter (date_parses parse) (before_dates pd input))"
  unfolding assms dropna_parse_dates by (simp add: comp_def)

lemma length_drop_duplicates_le: "length (drop_duplicates xs) \<le> length xs"
  using distinct_card[OF distinct_drop_duplicates, of xs] card_length[of xs]
  by (simp add: set_drop_duplicates)

lemma drop_duplicates_replicate: "0 < n \<Longrightarrow> drop_duplicates (replicate n x) = [x]"
proof -
  assume n: "0 < n"
  have s: "set (drop_duplicates (replicate n x)) = {x}"
    using n by (simp add: set_drop_duplicates)
  have "length (drop_duplicates (replicate n x)) = card (set (drop_duplicates (replicate n x)))"
    by (rule distinct_card[OF distinct_drop_duplicates, symmetric])
  then have l: "length (drop_duplicates (replicate n x)) = 1" unfolding s by simp
  then obtain y where y: "drop_duplicates (replicate n x) = [y]"
    by (cases "drop_duplicates (replicate n x)") auto
  then have "y = x" using s by simp
  then show ?thesis using y by simp
qed

lemma fillna_replicate: "fillna u (replicate n r) = replicate n (if u then fillna_row r else r)"
  by (simp add: fillna_def)

lemma sample_run_triple:
  "clean_sales_data pandas_3 (Some [sample_row, sample_row\<lparr>state := None\<rparr>, sample_row])
     = Inr \<lparr>loaded_shape = (3, 7), duplicates_removed = 1,
            returned = [add_features (parse_row sample_to_datetime sample_row),
                        add_features (parse_row sample_to_datetime (sample_row\<lparr>state := None\<rparr>))],
            final_shape = (2, 11)\<rparr>"
  by (simp add: cleaner_defs)

lemma replicate_3: "replicate 3 x = [x, x, x]"
  by (simp add: numeral_3_eq_3)

lemma sample_run_replicate:
  "clean_sales_data pandas_2 (Some (replicate 3 sample_row))
     = Inr \<lparr>loaded_shape = (3, 7), duplicates_removed = 2,
            returned = [add_features (parse_row sample_to_datetime sample_row)],
            final_shape = (1, 11)\<rparr>"
  unfolding replicate_3 by (simp add: cleaner_defs)





lemmas variant_defs = clean_sales_data_1_3_2_4_def clean_sales_data_1_4_2_3_def

lemma step_order_counts_differ:
  "clean_sales_data pandas_2 (Some
       [sample_row\<lparr>sales_amount := Some (- 5)\<rparr>, sample_row\<lparr>sales_amount := Some (- 5)\<rparr>])
     = Inr \<lparr>loaded_shape = (2, 7), duplicates_removed = 1, returned = [], final_shape = (0, 11)\<rparr>
   \<and> clean_sales_data_1_3_2_4 pandas_2 (Some
       [sample_row\<lparr>sales_amount := Some (- 5)\<rparr>, sample_row\<lparr>sales_amount := Some (- 5)\<rparr>])
     = Inr \<lparr>loaded_shape = (2, 7), duplicates_removed = 0, returned = [], final_shape = (0, 11)\<rparr>"
  by (simp add: cleaner_defs variant_defs)

subsection \<open>Null handling where the in-place call updates the frame\<close>

lemma fillna_inplace_spec:
  "length (fillna True df) = length df
   \<and> (\<forall>i<length df.
        sales_amount (fillna True df ! i)
          = (case sales_amount (df ! i) of None \<Rightarrow> Some 0 | Some a \<Rightarrow> Some a)
        \<and> state (fillna True df ! i)
          = (case state (df ! i) of None \<Rightarrow> Some ''UNKNOWN'' | Some s \<Rightarrow> Some s)
        \<and> transaction_id (fillna True df ! i) = transaction_id (df ! i)
        \<and> transaction_date (fillna True df ! i) = transaction_date (df ! i)
        \<and> product_id (fillna True df ! i) = product_id (df ! i)
        \<and> product_name (fillna True df ! i) = product_name (df ! i)
        \<and> customer_id (fillna True df ! i) = customer_id (df ! i)
        \<and> row.more (fillna True df ! i) = row.more (df ! i)
        \<and> (sales_amount (df ! i) \<noteq> None \<and> state (df ! i) \<noteq> None \<longrightarrow> fillna True df ! i = df ! i))"
  by (auto simp: fillna_def fillna_row_def)

lemma null_variant_fillna_row: "null_variant r r' \<Longrightarrow> fillna_row r = fillna_row r'"
  by (auto simp: null_variant_def fillna_row_def)

lemma count_list_distinct: "distinct xs \<Longrightarrow> x \<in> set xs \<Longrightarrow> count_list xs x = 1"
  by (induction xs) auto

lemma null_variants_collapse_inplace:
  assumes "inplace_updates_frame pd" and "clean_sales_data pd (Some input) = Inr run"
    and "i < j" and "j < length input"
    and "null_variant (input ! i) (input ! j) \<or> null_variant (input ! j) (input ! i)"
  shows "fillna True input ! i = fillna True input ! j
   \<and> count_list (drop_duplicates (fillna True input)) (fillna True input ! i) = 1
   \<and> j \<in> {k. k < length (fillna True input) \<and> (\<exists>l<k. fillna True input ! l = fillna True input ! k)}
   \<and> duplicates_removed run
       = card {k. k < length (fillna True input) \<and> (\<exists>l<k. fillna True input ! l = fillna True input ! k)}
   \<and> 1 \<le> duplicates_removed run
   \<and> length (returned run) + duplicates_removed run \<le> length input"
proof -
  let ?D = "{k. k < length (fillna True input) \<and> (\<exists>l<k. fillna True input ! l = fillna True input ! k)}"
  have li: "i < length input" using assms(3,4) by simp
  have ni: "fillna True input ! i = fillna_row (input ! i)" using li by (simp add: fillna_def)
  have nj: "fillna True input ! j = fillna_row (input ! j)" using assms(4) by (simp add: fillna_def)
  have e: "fillna True input ! i = fillna True input ! j"
    unfolding ni nj using assms(5) null_variant_fillna_row[of "input ! i" "input ! j"]
      null_variant_fillna_row[of "input ! j" "input ! i"] by auto
  have mem: "fillna True input ! i \<in> set (drop_duplicates (fillna True input))"
    using li by (simp add: set_drop_duplicates fillna_def)
  have c: "count_list (drop_duplicates (fillna True input)) (fillna True input ! i) = 1"
    by (rule count_list_distinct[OF distinct_drop_duplicates mem])
  have jD: "j \<in> ?D" using assms(3,4) e by (auto simp: fillna_def)
  from assms(2) obtain parse where
    ret: "returned run = map add_features (dropna_date (parse_dates parse (before_dates pd input)))"
    and rem: "duplicates_removed run
        = length input - length (drop_duplicates (fillna (inplace_updates_frame pd) input))"
    by (rule clean_sales_data_run)
  have u: "inplace_updates_frame pd = True" using assms(1) by simp
  have d: "duplicates_removed run = card ?D"
    unfolding rem u using removed_count[of "fillna True input"] by (simp add: length_fillna)
  have "finite ?D" by simp
  then have "card ?D \<noteq> 0" using jD by (metis (no_types, lifting) card_0_eq empty_iff)
  then have one: "1 \<le> duplicates_removed run" unfolding d by linarith
  have "length (returned run) \<le> length (before_dates pd input)"
    unfolding returned_as_filter[OF ret] by simp
  also have "\<dots> \<le> length (drop_duplicates (fillna True input))"
    unfolding before_dates_def filter_non_negative_def u by simp
  finally have len: "length (returned run) + duplicates_removed run \<le> length input"
    using length_drop_duplicates_le[of "fillna True input"]
    unfolding rem u by (simp add: length_fillna)
  show ?thesis using e c jD d one len by (intro conjI)
qed

subsection \<open>Sums over groups\<close>








section \<open>Invariants of the cleaned table\<close>

text \<open>
  C1, as the code has it. Every row of the table that a run of \<open>clean_sales_data\<close>
  returns has a present amount that is not negative, a present (successfully parsed)
  date, one of the five category values and one of the three jurisdiction values. No two
  rows of the returned table are equal provided the reading of the dates keeps the date
  texts of the input apart: deduplication runs before the dates are parsed and compares
  the texts.
\<close>

theorem cleaned_rows_invariant:
  "clean_sales_data pd (Some input) = Inr run \<longrightarrow>
     (\<forall>r \<in> set (returned run).
        (\<exists>a. sales_amount r = Some a \<and> 0 \<le> a)
        \<and> (\<exists>t. transaction_date r = Some t)
        \<and> product_category r \<in> {''ELECTRONICS'', ''CLOTHING'', ''GROCERIES'', ''OTHER'', ''UNCATEGORIZED''}
        \<and> tax_jurisdiction r \<in> {''STANDARD'', ''GROCERY_EXEMPT'', ''REDUCED_RATE''})
     \<and> (\<forall>parse. to_datetime pd (date_column pd input) = Some parse \<and> parses_apart parse input
           \<longrightarrow> distinct (returned run))"
proof (intro impI conjI ballI allI)
  assume c: "clean_sales_data pd (Some input) = Inr run"
  then obtain parse where p: "to_datetime pd (date_column pd input) = Some parse"
    and ret: "returned run = map add_features (dropna_date (parse_dates parse (before_dates pd input)))"
    by (rule clean_sales_data_run)
  {
    fix r assume "r \<in> set (returned run)"
    with ret obtain x where x: "x \<in> set (before_dates pd input)"
      "transaction_date (parse_row parse x) \<noteq> None"
      "r = add_features (parse_row parse x)"
      by (rule returned_row_origin)
    have nn: "non_negative x" using x(1) by (rule before_dates_row)
    show "\<exists>a. sales_amount r = Some a \<and> 0 \<le> a"
      using nn unfolding x(3) add_features_fields parse_row_fields non_negative_def
      by (cases "sales_amount x") simp_all
    show "\<exists>t. transaction_date r = Some t"
      using x(2) unfolding x(3) add_features_fields by blast
    show "product_category r \<in> {''ELECTRONICS'', ''CLOTHING'', ''GROCERIES'', ''OTHER'', ''UNCATEGORIZED''}"
      unfolding x(3) add_features_fields by (rule categorize_product_range)
    show "tax_jurisdiction r \<in> {''STANDARD'', ''GROCERY_EXEMPT'', ''REDUCED_RATE''}"
      unfolding x(3) add_features_fields by (rule determine_tax_jurisdiction_range)
  }
  {
    fix parse'
    assume h: "to_datetime pd (date_column pd input) = Some parse' \<and> parses_apart parse' input"
    then have "parse' = parse" using p by simp
    then show "distinct (returned run)"
      using h ret by (intro distinct_returned[of parse input run pd]) simp_all
  }
qed

theorem cleaned_rows_invariant_witness:
  "clean_sales_data pandas_2 (Some
      [sample_row, sample_row\<lparr>sales_amount := Some (- 5)\<rparr>,
       sample_row\<lparr>transaction_date := Some ''not a date''\<rparr>])
     = Inr \<lparr>loaded_shape = (3, 7), duplicates_removed = 0,
          returned = [add_features (parse_row sample_to_datetime sample_row)],
          final_shape = (1, 11)\<rparr>
   \<and> parses_apart sample_to_datetime
      [sample_row, sample_row\<lparr>sales_amount := Some (- 5)\<rparr>,
       sample_row\<lparr>transaction_date := Some ''not a date''\<rparr>]
   \<and> (\<exists>a. sales_amount (add_features (parse_row sample_to_datetime sample_row)) = Some a \<and> 0 \<le> a)
   \<and> (\<exists>t. transaction_date (add_features (parse_row sample_to_datetime sample_row)) = Some t)
   \<and> distinct [add_features (parse_row sample_to_datetime sample_row)]"
proof -
  let ?T = "[sample_row, sample_row\<lparr>sales_amount := Some (- 5)\<rparr>,
             sample_row\<lparr>transaction_date := Some ''not a date''\<rparr>]"
  let ?o = "add_features (parse_row sample_to_datetime sample_row)"
  let ?run = "\<lparr>loaded_shape = (3, 7), duplicates_removed = 0, returned = [?o],
               final_shape = (1, 11)\<rparr>"
  note t = cleaned_rows_invariant[of pandas_2 ?T ?run, THEN mp, OF sample_run_2]
  have m: "?o \<in> set (returned ?run)" by simp
  note t1 = t[THEN conjunct1, rule_format, OF m]
  have h: "to_datetime pandas_2 (date_column pandas_2 ?T) = Some sample_to_datetime
      \<and> parses_apart sample_to_datetime ?T"
    using sample_to_datetime_2 sample_parses_apart by (intro conjI)
  have t2: "distinct [?o]"
    using t[THEN conjunct2, rule_format, OF h] by simp
  show ?thesis
    by (intro conjI sample_run_2 sample_parses_apart t1[THEN conjunct1]
        t1[THEN conjunct2, THEN conjunct1] t2)
qed

text \<open>
  C1, as stated, fails: the texts \<open>2024-01-15\<close> and \<open>2024-1-15\<close> differ, so
  deduplication keeps both rows, and pandas parses both to 15 January 2024, so the
  returned table holds the same row twice, whether or not the in-place call updates the
  frame.
\<close>

theorem cleaned_rows_duplicate_counterexample:
  "clean_sales_data pandas_2 (Some
       [sample_row\<lparr>transaction_date := Some ''2024-01-15''\<rparr>,
        sample_row\<lparr>transaction_date := Some ''2024-1-15''\<rparr>])
     = Inr \<lparr>loaded_shape = (2, 7), duplicates_removed = 0,
            returned =
              [add_features (parse_row sample_to_datetime
                 (sample_row\<lparr>transaction_date := Some ''2024-01-15''\<rparr>)),
               add_features (parse_row sample_to_datetime
                 (sample_row\<lparr>transaction_date := Some ''2024-01-15''\<rparr>))],
            final_shape = (2, 11)\<rparr>
   \<and> \<not> distinct
         [add_features (parse_row sample_to_datetime
            (sample_row\<lparr>transaction_date := Some ''2024-01-15''\<rparr>)),
          add_features (parse_row sample_to_datetime
            (sample_row\<lparr>transaction_date := Some ''2024-01-15''\<rparr>))]
   \<and> clean_sales_data pandas_3 (Some
       [sample_row\<lparr>transaction_date := Some ''2024-01-15''\<rparr>,
        sample_row\<lparr>transaction_date := Some ''2024-1-15''\<rparr>])
     = clean_sales_data pandas_2 (Some
       [sample_row\<lparr>transaction_date := Some ''2024-01-15''\<rparr>,
        sample_row\<lparr>transaction_date := Some ''2024-1-15''\<rparr>])"
  by (simp add: cleaner_defs)

section \<open>Categorization (step 6)\<close>

text \<open>
  C2. Categorization is a total function of the product id alone: a missing id gives
  UNCATEGORIZED; a present id gives ELECTRONICS, CLOTHING or GROCERIES when it starts
  with ELE, CLO or GRO in any mix of capital and small letters (tried in that order), and
  OTHER in every other case; so a present id always gets one of these four values.
\<close>

theorem categorize_product_spec:
  "categorize_product None = ''UNCATEGORIZED''
   \<and> categorize_product (Some s) = spec_category (Some s)
   \<and> categorize_product (Some s) \<in> {''ELECTRONICS'', ''CLOTHING'', ''GROCERIES'', ''OTHER''}"
  by (simp add: categorize_product_def spec_category_def Let_def startswith_upper)

section \<open>Tax jurisdiction (step 7)\<close>

text \<open>
  C3. The jurisdiction of every returned row is the value of
  \<open>determine_tax_jurisdiction\<close> at the row's state and category, and that function
  gives STANDARD for a state among CA, NY, TX with a category other than GROCERIES,
  GROCERY_EXEMPT for the category GROCERIES, REDUCED_RATE otherwise. A returned row with
  product id GRO-3001 and state CA has category GROCERIES and jurisdiction
  GROCERY_EXEMPT.
\<close>

theorem tax_jurisdiction_rule:
  "(\<forall>run. clean_sales_data pd file = Inr run \<longrightarrow>
      (\<forall>r \<in> set (returned run).
        tax_jurisdiction r = determine_tax_jurisdiction (state r) (product_category r)
        \<and> (product_id r = Some ''GRO-3001'' \<and> state r = Some ''CA'' \<longrightarrow>
             product_category r = ''GROCERIES'' \<and> tax_jurisdiction r = ''GROCERY_EXEMPT'')))
   \<and> (st \<in> {Some ''CA'', Some ''NY'', Some ''TX''} \<and> c \<noteq> ''GROCERIES'' \<longrightarrow>
         determine_tax_jurisdiction st c = ''STANDARD'')
   \<and> (c = ''GROCERIES'' \<longrightarrow> determine_tax_jurisdiction st c = ''GROCERY_EXEMPT'')
   \<and> (st \<notin> {Some ''CA'', Some ''NY'', Some ''TX''} \<and> c \<noteq> ''GROCERIES'' \<longrightarrow>
         determine_tax_jurisdiction st c = ''REDUCED_RATE'')"
proof (intro conjI allI impI ballI)
  fix run r
  assume "clean_sales_data pd file = Inr run" and "r \<in> set (returned run)"
  then obtain r0 where r0: "r = add_features r0"
    unfolding clean_sales_data_Inr by auto
  show "tax_jurisdiction r = determine_tax_jurisdiction (state r) (product_category r)"
    unfolding r0 add_features_fields ..
  have g: "categorize_product (Some ''GRO-3001'') = ''GROCERIES''"
    by (simp add: categorize_product_def Let_def startswith_def upper_def upper_char_def char_of_eq_iff)
  assume "product_id r = Some ''GRO-3001'' \<and> state r = Some ''CA''"
  then show "product_category r = ''GROCERIES''" "tax_jurisdiction r = ''GROCERY_EXEMPT''"
    unfolding r0 add_features_fields using g by (simp_all add: determine_tax_jurisdiction_def)
qed (simp_all add: determine_tax_jurisdiction_def)

theorem tax_jurisdiction_rule_witness:
  "clean_sales_data pandas_3 (Some [sample_row])
     = Inr \<lparr>loaded_shape = (1, 7), duplicates_removed = 0,
            returned = [add_features (parse_row sample_to_datetime sample_row)],
            final_shape = (1, 11)\<rparr>
   \<and> product_id (add_features (parse_row sample_to_datetime sample_row)) = Some ''GRO-3001''
   \<and> state (add_features (parse_row sample_to_datetime sample_row)) = Some ''CA''
   \<and> product_category (add_features (parse_row sample_to_datetime sample_row)) = ''GROCERIES''
   \<and> tax_jurisdiction (add_features (parse_row sample_to_datetime sample_row)) = ''GROCERY_EXEMPT''
   \<and> determine_tax_jurisdiction (Some ''NY'') ''CLOTHING'' = ''STANDARD''
   \<and> determine_tax_jurisdiction (Some ''AZ'') ''CLOTHING'' = ''REDUCED_RATE''"
proof -
  let ?o = "add_features (parse_row sample_to_datetime sample_row)"
  let ?run = "\<lparr>loaded_shape = (1, 7), duplicates_removed = 0, returned = [?o],
               final_shape = (1, 11)\<rparr>"
  have p: "product_id ?o = Some ''GRO-3001''" "state ?o = Some ''CA''"
    by (simp_all add: add_features_fields parse_row_fields sample_row_def)
  have m: "?o \<in> set (returned ?run)" by simp
  have a: "Some ''NY'' \<in> {Some ''CA'', Some ''NY'', Some ''TX''} \<and> ''CLOTHING'' \<noteq> ''GROCERIES''"
    by simp
  have b: "Some ''AZ'' \<notin> {Some ''CA'', Some ''NY'', Some ''TX''} \<and> ''CLOTHING'' \<noteq> ''GROCERIES''"
    by simp
  note t = tax_jurisdiction_rule[of pandas_3 "Some [sample_row]" "Some ''NY''" "''CLOTHING''"]
  note t' = tax_jurisdiction_rule[of pandas_3 "Some [sample_row]" "Some ''AZ''" "''CLOTHING''"]
  have t1: "product_category ?o = ''GROCERIES'' \<and> tax_jurisdiction ?o = ''GROCERY_EXEMPT''"
    by (rule t[THEN conjunct1, rule_format, OF sample_run_single m, THEN conjunct2, THEN mp,
          OF conjI[OF p(1) p(2)]])
  have t2: "determine_tax_jurisdiction (Some ''NY'') ''CLOTHING'' = ''STANDARD''"
    by (rule t[THEN conjunct2, THEN conjunct1, THEN mp, OF a])
  have t3: "determine_tax_jurisdiction (Some ''AZ'') ''CLOTHING'' = ''REDUCED_RATE''"
    by (rule t'[THEN conjunct2, THEN conjunct2, THEN conjunct2, THEN mp, OF b])
  show ?thesis
    by (intro conjI sample_run_single p t1[THEN conjunct1] t1[THEN conjunct2] t2 t3)
qed

section \<open>Re-applying steps 1 to 3\<close>

text \<open>
  C4, as the code has it. On the table returned by a run, null handling changes no row
  and the filter on negative amounts drops no row; steps 1 to 3 together do what
  deduplication alone does, which keeps the same rows as a set. They change nothing at
  all provided the reading of the dates keeps the date texts of the input apart.
\<close>

theorem steps_1_3_on_cleaned:
  "clean_sales_data pd (Some input) = Inr run \<longrightarrow>
     fillna (inplace_updates_frame pd) (returned run) = returned run
     \<and> filter_non_negative (returned run) = returned run
     \<and> filter_non_negative (drop_duplicates (fillna (inplace_updates_frame pd) (returned run)))
         = drop_duplicates (returned run)
     \<and> set (drop_duplicates (returned run)) = set (returned run)
     \<and> (\<forall>parse. to_datetime pd (date_column pd input) = Some parse \<and> parses_apart parse input
           \<longrightarrow> filter_non_negative (drop_duplicates (fillna (inplace_updates_frame pd) (returned run)))
                 = returned run)"
proof
  assume c: "clean_sales_data pd (Some input) = Inr run"
  then obtain parse where p: "to_datetime pd (date_column pd input) = Some parse"
    and ret: "returned run = map add_features (dropna_date (parse_dates parse (before_dates pd input)))"
    by (rule clean_sales_data_run)
  let ?out = "returned run"
  have a: "fillna (inplace_updates_frame pd) ?out = ?out" using ret by (rule fillna_returned)
  have b: "filter_non_negative ?out = ?out" using ret by (rule filter_non_negative_returned)
  have c': "filter_non_negative (drop_duplicates ?out) = drop_duplicates ?out"
    unfolding filter_non_negative_def filter_drop_duplicates
    using b unfolding filter_non_negative_def by simp
  have d: "\<forall>parse'. to_datetime pd (date_column pd input) = Some parse' \<and> parses_apart parse' input
           \<longrightarrow> drop_duplicates ?out = ?out"
  proof (intro allI impI)
    fix parse'
    assume h: "to_datetime pd (date_column pd input) = Some parse' \<and> parses_apart parse' input"
    then have "parse' = parse" using p by simp
    then have "distinct ?out" using h ret by (intro distinct_returned[of parse input run pd]) simp_all
    then show "drop_duplicates ?out = ?out" by (rule drop_duplicates_distinct)
  qed
  show "fillna (inplace_updates_frame pd) (returned run) = returned run
     \<and> filter_non_negative (returned run) = returned run
     \<and> filter_non_negative (drop_duplicates (fillna (inplace_updates_frame pd) (returned run)))
         = drop_duplicates (returned run)
     \<and> set (drop_duplicates (returned run)) = set (returned run)
     \<and> (\<forall>parse. to_datetime pd (date_column pd input) = Some parse \<and> parses_apart parse input
           \<longrightarrow> filter_non_negative (drop_duplicates (fillna (inplace_updates_frame pd) (returned run)))
                 = returned run)"
    using a b c' d by (simp add: set_drop_duplicates)
qed

theorem steps_1_3_on_cleaned_witness:
  "clean_sales_data pandas_2 (Some
      [sample_row, sample_row\<lparr>sales_amount := Some (- 5)\<rparr>,
       sample_row\<lparr>transaction_date := Some ''not a date''\<rparr>])
     = Inr \<lparr>loaded_shape = (3, 7), duplicates_removed = 0,
          returned = [add_features (parse_row sample_to_datetime sample_row)],
          final_shape = (1, 11)\<rparr>
   \<and> parses_apart sample_to_datetime
      [sample_row, sample_row\<lparr>sales_amount := Some (- 5)\<rparr>,
       sample_row\<lparr>transaction_date := Some ''not a date''\<rparr>]
   \<and> filter_non_negative (drop_duplicates (fillna True
        [add_features (parse_row sample_to_datetime sample_row)]))
       = [add_features (parse_row sample_to_datetime sample_row)]"
proof -
  let ?T = "[sample_row, sample_row\<lparr>sales_amount := Some (- 5)\<rparr>,
             sample_row\<lparr>transaction_date := Some ''not a date''\<rparr>]"
  let ?o = "add_features (parse_row sample_to_datetime sample_row)"
  let ?run = "\<lparr>loaded_shape = (3, 7), duplicates_removed = 0, returned = [?o],
               final_shape = (1, 11)\<rparr>"
  have h: "to_datetime pandas_2 (date_column pandas_2 ?T) = Some sample_to_datetime
      \<and> parses_apart sample_to_datetime ?T"
    using sample_to_datetime_2 sample_parses_apart by (intro conjI)
  note t = steps_1_3_on_cleaned[of pandas_2 ?T ?run, THEN mp, OF sample_run_2]
  have u: "inplace_updates_frame pandas_2 = True" by (simp add: pandas_2_def)
  have "filter_non_negative (drop_duplicates (fillna True [?o])) = [?o]"
    using t[THEN conjunct2, THEN conjunct2, THEN conjunct2, THEN conjunct2, rule_format, OF h]
    unfolding u by simp
  then show ?thesis
    by (intro conjI sample_run_2 sample_parses_apart)
qed

text \<open>
  C4, as stated, fails: the run on the two rows that differ only in the date texts
  \<open>2024-01-15\<close> and \<open>2024-1-15\<close> returns the same row twice, and deduplication
  removes one of them when steps 1 to 3 are applied again.
\<close>

theorem steps_1_3_on_cleaned_counterexample:
  "clean_sales_data pandas_2 (Some
       [sample_row\<lparr>transaction_date := Some ''2024-01-15''\<rparr>,
        sample_row\<lparr>transaction_date := Some ''2024-1-15''\<rparr>])
     = Inr \<lparr>loaded_shape = (2, 7), duplicates_removed = 0,
            returned =
              [add_features (parse_row sample_to_datetime
                 (sample_row\<lparr>transaction_date := Some ''2024-01-15''\<rparr>)),
               add_features (parse_row sample_to_datetime
                 (sample_row\<lparr>transaction_date := Some ''2024-01-15''\<rparr>))],
            final_shape = (2, 11)\<rparr>
   \<and> filter_non_negative (drop_duplicates (fillna True
        [add_features (parse_row sample_to_datetime
           (sample_row\<lparr>transaction_date := Some ''2024-01-15''\<rparr>)),
         add_features (parse_row sample_to_datetime
           (sample_row\<lparr>transaction_date := Some ''2024-01-15''\<rparr>))]))
     = [add_features (parse_row sample_to_datetime
           (sample_row\<lparr>transaction_date := Some ''2024-01-15''\<rparr>))]"
  by (simp add: cleaner_defs)

section \<open>Aggregates by category\<close>




section \<open>Deduplication (step 2)\<close>

text \<open>
  C6. Deduplication keeps exactly the rows that no earlier row equals in every field (the
  first row of each group of identical rows), so its result has no two equal rows and the
  same rows as a set, and the number of rows it drops is the number of rows that an
  earlier row equals. In a run of the cleaner the logged count is that number for the
  table after step 1, and the returned table is made of exactly the rows of that table
  that no earlier row equals, as far as their amount is not negative and their date
  parses. A file of \<open>n\<close> identical rows gives a logged count of \<open>n - 1\<close> and at most
  one returned row.
\<close>

theorem drop_duplicates_exact:
  "drop_duplicates df = nths df {i. \<forall>j<i. df ! j \<noteq> df ! i}
   \<and> distinct (drop_duplicates df)
   \<and> set (drop_duplicates df) = set df
   \<and> length df - length (drop_duplicates df)
       = card {i. i < length df \<and> (\<exists>j<i. df ! j = df ! i)}
   \<and> (\<forall>run. clean_sales_data pd (Some input) = Inr run \<longrightarrow>
        duplicates_removed run
          = card {i. i < length (fillna (inplace_updates_frame pd) input)
                   \<and> (\<exists>j<i. fillna (inplace_updates_frame pd) input ! j
                              = fillna (inplace_updates_frame pd) input ! i)}
        \<and> (\<forall>parse. to_datetime pd (date_column pd input) = Some parse \<longrightarrow>
             returned run
               = map (\<lambda>r. add_features (parse_row parse r))
                   (filter (\<lambda>r. non_negative r \<and> date_parses parse r)
                      (nths (fillna (inplace_updates_frame pd) input)
                         {i. \<forall>j<i. fillna (inplace_updates_frame pd) input ! j
                                    \<noteq> fillna (inplace_updates_frame pd) input ! i}))))
   \<and> (\<forall>run. 0 < n \<and> clean_sales_data pd (Some (replicate n r)) = Inr run \<longrightarrow>
        duplicates_removed run = n - 1 \<and> length (returned run) \<le> 1)"
proof (intro conjI allI impI)
  show "drop_duplicates df = nths df {i. \<forall>j<i. df ! j \<noteq> df ! i}" by (rule drop_duplicates_nths)
  show "distinct (drop_duplicates df)" by (rule distinct_drop_duplicates)
  show "set (drop_duplicates df) = set df" by (rule set_drop_duplicates)
  show "length df - length (drop_duplicates df)
       = card {i. i < length df \<and> (\<exists>j<i. df ! j = df ! i)}" by (rule removed_count)
next
  fix run
  assume c: "clean_sales_data pd (Some input) = Inr run"
  let ?df1 = "fillna (inplace_updates_frame pd) input"
  from c obtain parse where p: "to_datetime pd (date_column pd input) = Some parse"
    and ret: "returned run = map add_features (dropna_date (parse_dates parse (before_dates pd input)))"
    and rem: "duplicates_removed run = length input - length (drop_duplicates ?df1)"
    by (rule clean_sales_data_run)
  show "duplicates_removed run = card {i. i < length ?df1 \<and> (\<exists>j<i. ?df1 ! j = ?df1 ! i)}"
    unfolding rem using removed_count[of ?df1] by (simp add: length_fillna)
  fix parse'
  assume "to_datetime pd (date_column pd input) = Some parse'"
  then have e: "parse' = parse" using p by simp
  have "returned run = map (\<lambda>r. add_features (parse_row parse r))
           (filter (date_parses parse) (before_dates pd input))"
    using ret by (rule returned_as_filter)
  also have "filter (date_parses parse) (before_dates pd input)
      = filter (\<lambda>r. non_negative r \<and> date_parses parse r) (drop_duplicates ?df1)"
    by (simp add: before_dates_def filter_non_negative_def conj_commute)
  finally show "returned run
               = map (\<lambda>r. add_features (parse_row parse' r))
                   (filter (\<lambda>r. non_negative r \<and> date_parses parse' r)
                      (nths ?df1 {i. \<forall>j<i. ?df1 ! j \<noteq> ?df1 ! i}))"
    unfolding e drop_duplicates_nths[symmetric] .
next
  fix run
  assume h: "0 < n \<and> clean_sales_data pd (Some (replicate n r)) = Inr run"
  then have n: "0 < n" and c: "clean_sales_data pd (Some (replicate n r)) = Inr run" by simp_all
  let ?x = "if inplace_updates_frame pd then fillna_row r else r"
  from c obtain parse where
    ret: "returned run = map add_features (dropna_date (parse_dates parse (before_dates pd (replicate n r))))"
    and rem: "duplicates_removed run
        = length (replicate n r) - length (drop_duplicates (fillna (inplace_updates_frame pd) (replicate n r)))"
    by (rule clean_sales_data_run)
  have dd: "drop_duplicates (fillna (inplace_updates_frame pd) (replicate n r)) = [?x]"
    unfolding fillna_replicate using n by (rule drop_duplicates_replicate)
  show "duplicates_removed run = n - 1" unfolding rem dd by simp
  have "length (returned run) \<le> length (before_dates pd (replicate n r))"
    unfolding returned_as_filter[OF ret] by simp
  also have "\<dots> \<le> length (drop_duplicates (fillna (inplace_updates_frame pd) (replicate n r)))"
    unfolding before_dates_def filter_non_negative_def by simp
  finally show "length (returned run) \<le> 1" unfolding dd by simp
qed

theorem drop_duplicates_exact_witness:
  "clean_sales_data pandas_3 (Some [sample_row, sample_row\<lparr>state := None\<rparr>, sample_row])
     = Inr \<lparr>loaded_shape = (3, 7), duplicates_removed = 1,
            returned = [add_features (parse_row sample_to_datetime sample_row),
                        add_features (parse_row sample_to_datetime (sample_row\<lparr>state := None\<rparr>))],
            final_shape = (2, 11)\<rparr>
   \<and> nths [sample_row, sample_row\<lparr>state := None\<rparr>, sample_row]
       {i. \<forall>j<i. [sample_row, sample_row\<lparr>state := None\<rparr>, sample_row] ! j
                 \<noteq> [sample_row, sample_row\<lparr>state := None\<rparr>, sample_row] ! i}
       = [sample_row, sample_row\<lparr>state := None\<rparr>]
   \<and> card {i. i < length (fillna (inplace_updates_frame pandas_3)
                           [sample_row, sample_row\<lparr>state := None\<rparr>, sample_row])
             \<and> (\<exists>j<i. fillna (inplace_updates_frame pandas_3)
                          [sample_row, sample_row\<lparr>state := None\<rparr>, sample_row] ! j
                      = fillna (inplace_updates_frame pandas_3)
                          [sample_row, sample_row\<lparr>state := None\<rparr>, sample_row] ! i)} = 1
   \<and> (0::nat) < 3
   \<and> clean_sales_data pandas_2 (Some (replicate 3 sample_row))
       = Inr \<lparr>loaded_shape = (3, 7), duplicates_removed = 2,
            returned = [add_features (parse_row sample_to_datetime sample_row)],
            final_shape = (1, 11)\<rparr>
   \<and> (2::nat) = 3 - 1
   \<and> length [add_features (parse_row sample_to_datetime sample_row)] \<le> 1"
proof -
  let ?T = "[sample_row, sample_row\<lparr>state := None\<rparr>, sample_row]"
  let ?run = "\<lparr>loaded_shape = (3, 7), duplicates_removed = 1,
            returned = [add_features (parse_row sample_to_datetime sample_row),
                        add_features (parse_row sample_to_datetime (sample_row\<lparr>state := None\<rparr>))],
            final_shape = (2, 11)\<rparr>"
  let ?run' = "\<lparr>loaded_shape = (3, 7), duplicates_removed = 2,
            returned = [add_features (parse_row sample_to_datetime sample_row)],
            final_shape = (1, 11)\<rparr>"
  have d: "drop_duplicates ?T = [sample_row, sample_row\<lparr>state := None\<rparr>]"
    by (simp add: drop_duplicates_def sample_row_def)
  note t = drop_duplicates_exact[of ?T pandas_3 ?T 3 sample_row]
  have t1: "nths ?T {i. \<forall>j<i. ?T ! j \<noteq> ?T ! i} = [sample_row, sample_row\<lparr>state := None\<rparr>]"
    using t[THEN conjunct1] unfolding d by simp
  note t5 = t[THEN conjunct2, THEN conjunct2, THEN conjunct2, THEN conjunct2, THEN conjunct1,
      rule_format, OF sample_run_triple, THEN conjunct1]
  have t2: "card {i. i < length (fillna (inplace_updates_frame pandas_3) ?T)
             \<and> (\<exists>j<i. fillna (inplace_updates_frame pandas_3) ?T ! j
                      = fillna (inplace_updates_frame pandas_3) ?T ! i)} = 1"
    using t5 by simp
  have z: "(0::nat) < 3" by simp
  note t' = drop_duplicates_exact[of ?T pandas_2 ?T 3 sample_row]
  note t6 = t'[THEN conjunct2, THEN conjunct2, THEN conjunct2, THEN conjunct2, THEN conjunct2,
      rule_format, OF conjI[OF z sample_run_replicate]]
  have t3: "(2::nat) = 3 - 1" using t6[THEN conjunct1] by simp
  have t4: "length [add_features (parse_row sample_to_datetime sample_row)] \<le> 1"
    using t6[THEN conjunct2] by simp
  show ?thesis
    by (intro conjI sample_run_triple t1 t2 z sample_run_replicate t3 t4)
qed

section \<open>Rows whose date does not parse (step 4)\<close>




section \<open>Order of steps 1 to 4\<close>

text \<open>
  C8, as the code has it. Exchanging deduplication and the filter on negative amounts
  (order 1, 3, 2, 4) gives the same result as the implemented order for every input: the
  same error, or the same loaded shape, returned table and final shape. Only the logged
  count of duplicates can differ.
\<close>

theorem step_order:
  "map_sum id (\<lambda>run. (loaded_shape run, returned run, final_shape run))
       (clean_sales_data_1_3_2_4 pd file)
   = map_sum id (\<lambda>run. (loaded_shape run, returned run, final_shape run))
       (clean_sales_data pd file)"
proof (cases "file")
  case None
  then show ?thesis by (simp add: clean_sales_data_1_3_2_4_def clean_sales_data_def)
next
  case (Some df)
  have a: "drop_duplicates (filter_non_negative (fillna (inplace_updates_frame pd) df))
         = filter_non_negative (drop_duplicates (fillna (inplace_updates_frame pd) df))"
    by (simp add: filter_non_negative_def filter_drop_duplicates)
  show ?thesis
    unfolding Some clean_sales_data_1_3_2_4_def clean_sales_data_def Let_def
    by (simp add: a split: option.split)
qed

text \<open>
  C8, as stated, fails: the order is not free. With the dates parsed before
  deduplication (order 1, 4, 2, 3), the two rows whose date texts \<open>2024-01-15\<close> and
  \<open>2024-1-15\<close> parse to the same timestamp collapse into one, where the implemented
  order returns both.
\<close>

theorem step_order_counterexample:
  "clean_sales_data pandas_2 (Some
       [sample_row\<lparr>transaction_date := Some ''2024-01-15''\<rparr>,
        sample_row\<lparr>transaction_date := Some ''2024-1-15''\<rparr>])
     = Inr \<lparr>loaded_shape = (2, 7), duplicates_removed = 0,
            returned =
              [add_features (parse_row sample_to_datetime
                 (sample_row\<lparr>transaction_date := Some ''2024-01-15''\<rparr>)),
               add_features (parse_row sample_to_datetime
                 (sample_row\<lparr>transaction_date := Some ''2024-01-15''\<rparr>))],
            final_shape = (2, 11)\<rparr>
   \<and> clean_sales_data_1_4_2_3 pandas_2 (Some
       [sample_row\<lparr>transaction_date := Some ''2024-01-15''\<rparr>,
        sample_row\<lparr>transaction_date := Some ''2024-1-15''\<rparr>])
     = Inr \<lparr>loaded_shape = (2, 7), duplicates_removed = 1,
            returned =
              [add_features (parse_row sample_to_datetime
                 (sample_row\<lparr>transaction_date := Some ''2024-01-15''\<rparr>))],
            final_shape = (1, 11)\<rparr>
   \<and> clean_sales_data pandas_3 (Some
       [sample_row\<lparr>transaction_date := Some ''2024-01-15''\<rparr>,
        sample_row\<lparr>transaction_date := Some ''2024-1-15''\<rparr>])
     = clean_sales_data pandas_2 (Some
       [sample_row\<lparr>transaction_date := Some ''2024-01-15''\<rparr>,
        sample_row\<lparr>transaction_date := Some ''2024-1-15''\<rparr>])
   \<and> clean_sales_data_1_4_2_3 pandas_3 (Some
       [sample_row\<lparr>transaction_date := Some ''2024-01-15''\<rparr>,
        sample_row\<lparr>transaction_date := Some ''2024-1-15''\<rparr>])
     = clean_sales_data_1_4_2_3 pandas_2 (Some
       [sample_row\<lparr>transaction_date := Some ''2024-01-15''\<rparr>,
        sample_row\<lparr>transaction_date := Some ''2024-1-15''\<rparr>])"
  by (simp add: cleaner_defs variant_defs)

section \<open>Null handling (step 1)\<close>

text \<open>
  C9 does not hold of the code where the in-place call on a selected column leaves the
  frame unchanged (pandas 3): a missing state stays missing in the returned row, and a
  row with a missing amount is dropped by step 3 instead of being kept with amount 0.
  Where the call updates the frame (before pandas 3) the same inputs give UNKNOWN and 0,
  as \<open>fillna_inplace_spec\<close> says for every table.
\<close>

theorem null_handling_copy_on_write:
  "fillna (inplace_updates_frame pandas_3) [sample_row\<lparr>sales_amount := None, state := None\<rparr>]
     = [sample_row\<lparr>sales_amount := None, state := None\<rparr>]
   \<and> clean_sales_data pandas_3 (Some [sample_row\<lparr>state := None\<rparr>])
     = Inr \<lparr>loaded_shape = (1, 7), duplicates_removed = 0,
            returned = [add_features (parse_row sample_to_datetime (sample_row\<lparr>state := None\<rparr>))],
            final_shape = (1, 11)\<rparr>
   \<and> state (add_features (parse_row sample_to_datetime (sample_row\<lparr>state := None\<rparr>))) = None
   \<and> clean_sales_data pandas_3 (Some [sample_row\<lparr>sales_amount := None\<rparr>])
     = Inr \<lparr>loaded_shape = (1, 7), duplicates_removed = 0, returned = [], final_shape = (0, 11)\<rparr>
   \<and> clean_sales_data pandas_2 (Some [sample_row\<lparr>state := None\<rparr>])
     = Inr \<lparr>loaded_shape = (1, 7), duplicates_removed = 0,
            returned = [add_features (parse_row sample_to_datetime
                          (sample_row\<lparr>state := Some ''UNKNOWN''\<rparr>))],
            final_shape = (1, 11)\<rparr>
   \<and> clean_sales_data pandas_2 (Some [sample_row\<lparr>sales_amount := None\<rparr>])
     = Inr \<lparr>loaded_shape = (1, 7), duplicates_removed = 0,
            returned = [add_features (parse_row sample_to_datetime
                          (sample_row\<lparr>sales_amount := Some 0\<rparr>))],
            final_shape = (1, 11)\<rparr>"
  by (simp add: cleaner_defs)

section \<open>Null variants\<close>

text \<open>
  C10 does not hold of the code where the in-place call leaves the frame unchanged
  (pandas 3): a row with a missing amount and its twin with amount 0 are not equal when
  deduplication runs, the logged count is 0, and of two rows that differ in a missing
  state and UNKNOWN both are returned. Where the call updates the frame the twins
  collapse and are counted, as \<open>null_variants_collapse_inplace\<close> says for every table.
\<close>

theorem null_variants_copy_on_write:
  "null_variant (sample_row\<lparr>sales_amount := None\<rparr>) (sample_row\<lparr>sales_amount := Some 0\<rparr>)
   \<and> clean_sales_data pandas_3 (Some
        [sample_row\<lparr>sales_amount := None\<rparr>, sample_row\<lparr>sales_amount := Some 0\<rparr>])
     = Inr \<lparr>loaded_shape = (2, 7), duplicates_removed = 0,
            returned = [add_features (parse_row sample_to_datetime
                          (sample_row\<lparr>sales_amount := Some 0\<rparr>))],
            final_shape = (1, 11)\<rparr>
   \<and> null_variant (sample_row\<lparr>state := None\<rparr>) (sample_row\<lparr>state := Some ''UNKNOWN''\<rparr>)
   \<and> clean_sales_data pandas_3 (Some
        [sample_row\<lparr>state := None\<rparr>, sample_row\<lparr>state := Some ''UNKNOWN''\<rparr>])
     = Inr \<lparr>loaded_shape = (2, 7), duplicates_removed = 0,
            returned = [add_features (parse_row sample_to_datetime (sample_row\<lparr>state := None\<rparr>)),
                        add_features (parse_row sample_to_datetime
                          (sample_row\<lparr>state := Some ''UNKNOWN''\<rparr>))],
            final_shape = (2, 11)\<rparr>
   \<and> clean_sales_data pandas_2 (Some
        [sample_row\<lparr>sales_amount := None\<rparr>, sample_row\<lparr>sales_amount := Some 0\<rparr>])
     = Inr \<lparr>loaded_shape = (2, 7), duplicates_removed = 1,
            returned = [add_features (parse_row sample_to_datetime
                          (sample_row\<lparr>sales_amount := Some 0\<rparr>))],
            final_shape = (1, 11)\<rparr>"
  by (simp add: cleaner_defs null_variant_def)

end
